theory Spec2Isabelle
  imports Complex_Main "HOL-Library.Char_ord" "HOL-Library.List_Lexorder" "HOL-Library.Product_Lexorder"
    "HOL-Library.Multiset"
begin

section \<open>The tables of the notebook\<close>

text \<open>
  The notebook \<^verbatim>\<open>last-fm-cf-B.ipynb\<close> reads two tab-separated files into pandas
  data frames and transforms them cell by cell. A data frame is modelled as the list of
  its rows, in row order; a row is a record of the columns kept by \<^verbatim>\<open>usecols\<close>.
  A missing value (pandas' NaN) of a text column is \<open>None\<close>. The play counts form an
  int64 column: a value is an integer, and the sums pandas takes over the column are
  signed 64-bit sums that wrap around. A count outside the 64-bit range cannot occur in
  such a column; the wrapped sums read it modulo \<open>2 ^ 64\<close>.
\<close>

definition int64 :: "int \<Rightarrow> int" where
  "int64 x = (x + 2 ^ 63) mod 2 ^ 64 - 2 ^ 63"

record listen =
  l_user :: string
  l_artist :: "string option"
  l_plays :: int

record profile =
  p_user :: string
  p_gender :: "string option"
  p_country :: "string option"

record play =
  user :: string
  artist :: string
  plays :: int

record artist_total =
  ta_artist :: string
  total_plays :: int

datatype error = ValueError | ZeroDivisionError | UnboundLocalError

section \<open>Filtering and joining\<close>

text \<open>
  \<^verbatim>\<open>df_user[df_user['country']=='United Kingdom'].drop('country', axis=1)\<close>:
  boolean-mask selection keeps the rows whose mask is true, in order; a comparison of NaN
  with a string is false. The dropped column leaves rows of user and gender.
\<close>

definition select_UK :: "profile list \<Rightarrow> (string \<times> string option) list" where
  "select_UK df_user =
     map (\<lambda>p. (p_user p, p_gender p))
       (filter (\<lambda>p. p_country p = Some ''United Kingdom'') df_user)"

text \<open>
  \<^verbatim>\<open>df_user_UK[df_user_UK['gender']=='f'].drop('gender', axis=1)\<close>: only the user
  column remains.
\<close>

definition select_female :: "(string \<times> string option) list \<Rightarrow> string list" where
  "select_female df_user_UK = map fst (filter (\<lambda>r. snd r = Some ''f'') df_user_UK)"

text \<open>
  \<^verbatim>\<open>df_data.merge(df_user_UK_female, left_on='user', right_on='user', how='inner')\<close>:
  every left row is paired with every right row of the same key, in the order of the left
  rows. The right table has no column besides the key, so a result row is the left row,
  once per matching right row.
\<close>

definition merge_inner :: "listen list \<Rightarrow> string list \<Rightarrow> listen list" where
  "merge_inner left right =
     concat (map (\<lambda>e. map (\<lambda>_. e) (filter (\<lambda>u. u = l_user e) right)) left)"

text \<open>
  \<^verbatim>\<open>df.groupby(['user','artist'], as_index=False).sum()\<close>: one row per distinct
  key pair, in sorted key order; rows with a NaN key are dropped; the remaining column is
  summed within each group, in 64-bit arithmetic.
\<close>

definition group_keys :: "listen list \<Rightarrow> (string \<times> string) list" where
  "group_keys df =
     sort (remdups (concat (map (\<lambda>e. case l_artist e of None \<Rightarrow> [] | Some a \<Rightarrow> [(l_user e, a)]) df)))"

definition groupby_user_artist_sum :: "listen list \<Rightarrow> play list" where
  "groupby_user_artist_sum df =
     map (\<lambda>(u, a). \<lparr>user = u, artist = a,
            plays = int64 (sum_list (map l_plays (filter (\<lambda>e. l_user e = u \<and> l_artist e = Some a) df)))\<rparr>)
       (group_keys df)"

section \<open>Restriction to the most-played artists\<close>

text \<open>
  \<^verbatim>\<open>df_data.groupby(['artist'])['plays'].sum().reset_index().rename(...)\<close>: one row
  per distinct artist of the whole listening table (NaN artists dropped), in sorted order,
  with the 64-bit sum of that artist's play counts.
\<close>

definition groupby_artist_sum :: "listen list \<Rightarrow> artist_total list" where
  "groupby_artist_sum df_data =
     map (\<lambda>a. \<lparr>ta_artist = a,
            total_plays = int64 (sum_list (map l_plays (filter (\<lambda>e. l_artist e = Some a) df_data)))\<rparr>)
       (sort (remdups (List.map_filter l_artist df_data)))"

text \<open>
  \<^verbatim>\<open>df_artist[df_artist['total_plays']>200000].sort_values('total_plays', ascending=False)\<close>.
  The default sort kind of pandas (quicksort) is not stable: the source does not determine
  the order of rows of equal total. The later cells read the result only through
  membership (\<^verbatim>\<open>isin\<close>); the slice the cell prints is display only. The sorted frame
  is therefore the multiset of its rows, and so is the list of names taken from it by
  \<^verbatim>\<open>top_artist = list(df_top_artist['artist'])\<close>.
\<close>

definition select_top :: "artist_total list \<Rightarrow> artist_total multiset" where
  "select_top df_artist = filter_mset (\<lambda>r. total_plays r > 200000) (mset df_artist)"

text \<open>\<^verbatim>\<open>df[df['artist'].isin(top_artist)]\<close>\<close>

definition isin_artist :: "play list \<Rightarrow> string multiset \<Rightarrow> play list" where
  "isin_artist df top_artist = filter (\<lambda>r. artist r \<in># top_artist) df"

section \<open>The pivoted matrix\<close>

text \<open>
  A labelled two-dimensional frame: row labels, column labels, and the cells row by row.
\<close>

record 'a frame =
  index :: "string list"
  columns :: "string list"
  cells :: "'a list list"

text \<open>
  \<^verbatim>\<open>df.pivot(index='artist', columns='user', values='plays')\<close>: the row labels are the
  sorted distinct artists, the column labels the sorted distinct users, a cell holds the
  plays of the row with that artist and user, or NaN (\<open>None\<close>) when there is none.
  pandas raises ValueError when two rows share a pair of labels.
\<close>

definition pivot :: "play list \<Rightarrow> error + int option frame" where
  "pivot df =
     (if \<not> distinct (map (\<lambda>r. (artist r, user r)) df) then Inl ValueError
      else
        let idx = sort (remdups (map artist df));
            cols = sort (remdups (map user df))
        in Inr \<lparr>index = idx, columns = cols,
                cells = map (\<lambda>a. map (\<lambda>u. map_option plays
                                 (find (\<lambda>r. artist r = a \<and> user r = u) df)) cols) idx\<rparr>)"

text \<open>\<^verbatim>\<open>.fillna(0)\<close>: NaN cells become 0; the cells are floats, modelled as reals.\<close>

definition fillna0 :: "int option frame \<Rightarrow> real frame" where
  "fillna0 m =
     \<lparr>index = index m, columns = columns m,
      cells = map (map (\<lambda>c. case c of None \<Rightarrow> 0 | Some v \<Rightarrow> real_of_int v)) (cells m)\<rparr>"

text \<open>
  \<^verbatim>\<open>matrix = df.pivot(index ='artist', columns='user', values='plays').fillna(0)\<close>
\<close>

definition pivot_matrix :: "play list \<Rightarrow> error + real frame" where
  "pivot_matrix tab = (case pivot tab of Inl e \<Rightarrow> Inl e | Inr p \<Rightarrow> Inr (fillna0 p))"

section \<open>Matrices\<close>

text \<open>
  An unlabelled matrix (numpy array or scipy sparse matrix) is the list of its rows.
  Floating-point numbers are modelled as real numbers: rounding is not modelled.
\<close>

definition nrows :: "'a list list \<Rightarrow> nat" where
  "nrows X = length X"

definition ncols :: "'a list list \<Rightarrow> nat" where
  "ncols X = (case X of [] \<Rightarrow> 0 | r # _ \<Rightarrow> length r)"

text \<open>\<^verbatim>\<open>csr_matrix(matrix)\<close>: the cells without the labels.\<close>

definition csr_matrix :: "real frame \<Rightarrow> real list list" where
  "csr_matrix m = cells m"

text \<open>\<^verbatim>\<open>.T\<close>\<close>

definition mat_T :: "'a list list \<Rightarrow> 'a list list" where
  "mat_T X = map (\<lambda>j. map (\<lambda>r. r ! j) X) [0..<ncols X]"

section \<open>Cosine distance\<close>

definition dot_product :: "real list \<Rightarrow> real list \<Rightarrow> real" where
  "dot_product x y = sum_list (map2 (*) x y)"

definition norm2 :: "real list \<Rightarrow> real" where
  "norm2 x = sqrt (sum_list (map (\<lambda>v. v * v) x))"

text \<open>
  scikit-learn's \<^verbatim>\<open>normalize\<close>: every row is divided by its Euclidean norm, a norm of
  zero being replaced by one.
\<close>

definition normalize_rows :: "real list list \<Rightarrow> real list list" where
  "normalize_rows X =
     map (\<lambda>r. let n = norm2 r in map (\<lambda>v. v / (if n = 0 then 1 else n)) r) X"

definition sk_cosine_similarity :: "real list list \<Rightarrow> real list list \<Rightarrow> real list list" where
  "sk_cosine_similarity X Y =
     map (\<lambda>x. map (\<lambda>y. dot_product x y) (normalize_rows Y)) (normalize_rows X)"

definition clip :: "real \<Rightarrow> real \<Rightarrow> real \<Rightarrow> real" where
  "clip lo hi v = min hi (max lo v)"

text \<open>
  scikit-learn's \<^verbatim>\<open>cosine_distances(X, X)\<close>: one minus the cosine similarity, clipped
  to the interval from 0 to 2, with the diagonal set to 0.
\<close>

definition cosine_distances :: "real list list \<Rightarrow> real list list" where
  "cosine_distances X =
     (let S = map (map (\<lambda>s. clip 0 2 (1 - s))) (sk_cosine_similarity X X)
      in map (\<lambda>i. (S ! i)[i := 0]) [0..<length S])"

text \<open>
  \<^verbatim>\<open>pairwise_distances(X, metric='cosine')\<close>: the input check of scikit-learn rejects
  an array without rows or without columns with ValueError.
\<close>

definition pairwise_distances_cosine :: "real list list \<Rightarrow> error + real list list" where
  "pairwise_distances_cosine X =
     (if nrows X = 0 \<or> ncols X = 0 then Inl ValueError else Inr (cosine_distances X))"

section \<open>Prediction\<close>

text \<open>
  Matrix product (\<^verbatim>\<open>.dot\<close>): ValueError when the inner dimensions differ.
\<close>

definition dot :: "real list list \<Rightarrow> real list list \<Rightarrow> error + real list list" where
  "dot A B =
     (if ncols A \<noteq> nrows B then Inl ValueError
      else Inr (map (\<lambda>r. map (\<lambda>j. \<Sum>k<nrows B. r ! k * B ! k ! j) [0..<ncols B]) A))"

text \<open>
  numpy broadcasting of an elementwise operation on two-dimensional arrays: along each
  axis the two lengths are equal or one of them is 1, and an axis of length 1 is
  stretched; otherwise ValueError.
\<close>

definition bshape :: "nat \<Rightarrow> nat \<Rightarrow> nat option" where
  "bshape m n = (if m = n then Some m else if m = 1 then Some n else if n = 1 then Some m else None)"

definition bget :: "'a list list \<Rightarrow> nat \<Rightarrow> nat \<Rightarrow> 'a" where
  "bget A i j = A ! (if nrows A = 1 then 0 else i) ! (if ncols A = 1 then 0 else j)"

definition broadcast2 :: "('a \<Rightarrow> 'b \<Rightarrow> 'c) \<Rightarrow> 'a list list \<Rightarrow> 'b list list \<Rightarrow> error + 'c list list" where
  "broadcast2 f A B =
     (case bshape (nrows A) (nrows B) of
        None \<Rightarrow> Inl ValueError
      | Some m \<Rightarrow>
          (case bshape (ncols A) (ncols B) of
             None \<Rightarrow> Inl ValueError
           | Some n \<Rightarrow> Inr (map (\<lambda>i. map (\<lambda>j. f (bget A i j) (bget B i j)) [0..<n]) [0..<m])))"

text \<open>
  Floating-point division does not raise: a zero divisor gives nan or an infinity. A
  result that is not a finite number is \<open>None\<close>, and stays so when added to.
\<close>

definition np_divide :: "real \<Rightarrow> real \<Rightarrow> real option" where
  "np_divide x y = (if y = 0 then None else Some (x / y))"

definition np_add :: "real \<Rightarrow> real option \<Rightarrow> real option" where
  "np_add x q = map_option (\<lambda>v. x + v) q"

text \<open>\<^verbatim>\<open>np.abs(similarity).sum(axis=1)\<close>: the sum of absolute values of each row.\<close>

definition abs_sum_axis1 :: "real list list \<Rightarrow> real list" where
  "abs_sum_axis1 similarity = map (\<lambda>r. sum_list (map abs r)) similarity"

text \<open>
  \<^verbatim>\<open>matrix.mean(axis=1)\<close> of a scipy sparse matrix: a column of row means; scipy
  computes \<^verbatim>\<open>1.0 / shape[1]\<close>, which raises ZeroDivisionError without columns.
\<close>

definition mean_axis1 :: "real list list \<Rightarrow> error + real list list" where
  "mean_axis1 X =
     (if ncols X = 0 then Inl ZeroDivisionError
      else Inr (map (\<lambda>r. [sum_list r / real (ncols X)]) X))"

text \<open>
  \<^verbatim>\<open>
  def predict(matrix, similarity, type='user'):
      if type == 'user':
          mean_user_rating = matrix.mean(axis=1)
          ratings_diff = (matrix - mean_user_rating)
          pred = mean_user_rating + similarity.dot(ratings_diff) / np.array([np.abs(similarity).sum(axis=1)]).T
      elif type == 'item':
          pred = matrix.dot(similarity) / np.array([np.abs(similarity).sum(axis=1)])
      return pred
  \<close>
  With any other \<^verbatim>\<open>type\<close> no branch binds \<^verbatim>\<open>pred\<close> and the return statement
  raises UnboundLocalError.
\<close>

definition predict :: "real list list \<Rightarrow> real list list \<Rightarrow> string \<Rightarrow> error + real option list list" where
  "predict matrix similarity type =
     (if type = ''user'' then
        (case mean_axis1 matrix of
           Inl e \<Rightarrow> Inl e
         | Inr mean_user_rating \<Rightarrow>
             (case broadcast2 (-) matrix mean_user_rating of
                Inl e \<Rightarrow> Inl e
              | Inr ratings_diff \<Rightarrow>
                  (case dot similarity ratings_diff of
                     Inl e \<Rightarrow> Inl e
                   | Inr num \<Rightarrow>
                       (case broadcast2 np_divide num (mat_T [abs_sum_axis1 similarity]) of
                          Inl e \<Rightarrow> Inl e
                        | Inr quot \<Rightarrow> broadcast2 np_add mean_user_rating quot))))
      else if type = ''item'' then
        (case dot matrix similarity of
           Inl e \<Rightarrow> Inl e
         | Inr num \<Rightarrow> broadcast2 np_divide num [abs_sum_axis1 similarity])
      else Inl UnboundLocalError)"

section \<open>The notebook as a sequence of cells\<close>

text \<open>
  The kernel state holds the notebook's global variables. A cell is a function from
  the state to an error or the updated state; the variable \<^verbatim>\<open>df\<close> is reassigned
  by several cells and is recorded as it stands at the end of a cell.
\<close>

record kernel =
  df_data :: "listen list"
  df_user :: "profile list"
  df_user_UK :: "(string \<times> string option) list"
  df_user_UK_female :: "string list"
  df :: "play list"
  df_artist :: "artist_total list"
  df_top_artist :: "artist_total multiset"
  top_artist :: "string multiset"
  matrix :: "real frame"
  matrix_sparse :: "real list list"
  item_similarity :: "real list list"
  user_similarity :: "real list list"
  item_prediction :: "real option list list"
  user_prediction :: "real option list list"

text \<open>
  Loading: the contents of the two files, already parsed into rows by
  \<^verbatim>\<open>pd.read_table\<close>, are the parameters of the run.
\<close>

definition cell_load :: "listen list \<Rightarrow> profile list \<Rightarrow> kernel \<Rightarrow> error + kernel" where
  "cell_load user_data user_profiles k = Inr (k\<lparr>df_data := user_data, df_user := user_profiles\<rparr>)"

definition cell_merge :: "kernel \<Rightarrow> error + kernel" where
  "cell_merge k =
     (let uk = select_UK (df_user k);
          ukf = select_female uk;
          merged = merge_inner (df_data k) ukf
      in Inr (k\<lparr>df_user_UK := uk, df_user_UK_female := ukf,
                df := groupby_user_artist_sum merged\<rparr>))"

definition cell_artist :: "kernel \<Rightarrow> error + kernel" where
  "cell_artist k = Inr (k\<lparr>df_artist := groupby_artist_sum (df_data k)\<rparr>)"

definition cell_top_artist :: "kernel \<Rightarrow> error + kernel" where
  "cell_top_artist k = Inr (k\<lparr>df_top_artist := select_top (df_artist k)\<rparr>)"

definition cell_restrict :: "kernel \<Rightarrow> error + kernel" where
  "cell_restrict k =
     (let ta = image_mset ta_artist (df_top_artist k)
      in Inr (k\<lparr>top_artist := ta, df := isin_artist (df k) ta\<rparr>))"

definition cell_matrix :: "kernel \<Rightarrow> error + kernel" where
  "cell_matrix k =
     (case pivot_matrix (df k) of
        Inl e \<Rightarrow> Inl e
      | Inr m \<Rightarrow> Inr (k\<lparr>matrix := m, matrix_sparse := csr_matrix m\<rparr>))"

definition cell_similarity :: "kernel \<Rightarrow> error + kernel" where
  "cell_similarity k =
     (case pairwise_distances_cosine (matrix_sparse k) of
        Inl e \<Rightarrow> Inl e
      | Inr isim \<Rightarrow>
          (case pairwise_distances_cosine (mat_T (matrix_sparse k)) of
             Inl e \<Rightarrow> Inl e
           | Inr usim \<Rightarrow> Inr (k\<lparr>item_similarity := isim, user_similarity := usim\<rparr>)))"

definition cell_predict :: "kernel \<Rightarrow> error + kernel" where
  "cell_predict k =
     (case predict (mat_T (matrix_sparse k)) (item_similarity k) ''item'' of
        Inl e \<Rightarrow> Inl e
      | Inr ip \<Rightarrow>
          (case predict (mat_T (matrix_sparse k)) (user_similarity k) ''user'' of
             Inl e \<Rightarrow> Inl e
           | Inr up \<Rightarrow> Inr (k\<lparr>item_prediction := ip, user_prediction := up\<rparr>)))"

fun run_cells :: "(kernel \<Rightarrow> error + kernel) list \<Rightarrow> kernel \<Rightarrow> error + kernel" where
  "run_cells [] k = Inr k"
| "run_cells (c # cs) k = (case c k of Inl e \<Rightarrow> Inl e | Inr k' \<Rightarrow> run_cells cs k')"

text \<open>
  The cells in the order of the notebook. The cells that only display values, and the
  separate cell that fits the third-party estimator, assign none of these variables.
\<close>

definition notebook :: "listen list \<Rightarrow> profile list \<Rightarrow> (kernel \<Rightarrow> error + kernel) list" where
  "notebook user_data user_profiles =
     [cell_load user_data user_profiles, cell_merge, cell_artist, cell_top_artist,
      cell_restrict, cell_matrix, cell_similarity, cell_predict]"

section \<open>Notions of the specification\<close>

text \<open>
  The total play count of an artist across a listening table, in the words of the
  specification: the sum of the play counts of all rows of that artist.
\<close>

definition total_plays_of :: "listen list \<Rightarrow> string \<Rightarrow> int" where
  "total_plays_of evs a = (\<Sum>e\<leftarrow>filter (\<lambda>e. l_artist e = Some a) evs. l_plays e)"

text \<open>The integers that a signed 64-bit number can hold.\<close>

definition in_int64 :: "int \<Rightarrow> bool" where
  "in_int64 x \<longleftrightarrow> - (2 ^ 63) \<le> x \<and> x < 2 ^ 63"

text \<open>The play count of a user for an artist in an aggregated table.\<close>

definition play_count :: "play list \<Rightarrow> string \<Rightarrow> string \<Rightarrow> int" where
  "play_count tab u a = (\<Sum>r\<leftarrow>filter (\<lambda>r. user r = u \<and> artist r = a) tab. plays r)"

text \<open>
  A dense labelled matrix over given row and column labels: one row per distinct row
  label, one column per distinct column label, and the cell of a pair of labels holding
  the given entry.
\<close>

definition dense_matrix ::
  "string list \<Rightarrow> string list \<Rightarrow> (string \<Rightarrow> string \<Rightarrow> real) \<Rightarrow> real frame \<Rightarrow> bool" where
  "dense_matrix row_labels col_labels entry m \<longleftrightarrow>
     distinct (index m) \<and> set (index m) = set row_labels \<and>
     distinct (columns m) \<and> set (columns m) = set col_labels \<and>
     length (cells m) = length (index m) \<and>
     (\<forall>i<length (index m). length (cells m ! i) = length (columns m) \<and>
        (\<forall>j<length (columns m). cells m ! i ! j = entry (index m ! i) (columns m ! j)))"

text \<open>
  The two orientations of the pivoted matrix of an aggregated table: users as rows and
  artists as columns, or artists as rows and users as columns. In both, the cell of a
  user and an artist holds the play count of that user for that artist.
\<close>

definition user_by_artist_matrix :: "play list \<Rightarrow> real frame \<Rightarrow> bool" where
  "user_by_artist_matrix tab m \<longleftrightarrow>
     dense_matrix (map user tab) (map artist tab) (\<lambda>u a. real_of_int (play_count tab u a)) m"

definition artist_by_user_matrix :: "play list \<Rightarrow> real frame \<Rightarrow> bool" where
  "artist_by_user_matrix tab m \<longleftrightarrow>
     dense_matrix (map artist tab) (map user tab) (\<lambda>a u. real_of_int (play_count tab u a)) m"

text \<open>
  Cosine similarity in the words of the specification: the dot product of two vectors
  divided by the product of their norms.
\<close>

definition cosine_similarity :: "real list \<Rightarrow> real list \<Rightarrow> real" where
  "cosine_similarity x y = dot_product x y / (norm2 x * norm2 y)"

section \<open>Example inputs\<close>

text \<open>A kernel in which no cell has run yet: every variable is empty.\<close>

definition fresh_kernel :: kernel where
  "fresh_kernel =
     \<lparr>df_data = [], df_user = [], df_user_UK = [], df_user_UK_female = [], df = [],
      df_artist = [], df_top_artist = {#}, top_artist = {#},
      matrix = \<lparr>index = [], columns = [], cells = []\<rparr>, matrix_sparse = [],
      item_similarity = [], user_similarity = [], item_prediction = [], user_prediction = []\<rparr>"

text \<open>
  A small pair of files: two users of the demographic subset, one user outside it, and
  one listening row without an artist name.
\<close>

definition example_listens :: "listen list" where
  "example_listens =
     [\<lparr>l_user = ''u2'', l_artist = Some ''b'', l_plays = 250000\<rparr>,
      \<lparr>l_user = ''u1'', l_artist = Some ''a'', l_plays = 300000\<rparr>,
      \<lparr>l_user = ''u1'', l_artist = Some ''c'', l_plays = 10\<rparr>,
      \<lparr>l_user = ''u3'', l_artist = Some ''a'', l_plays = 7\<rparr>,
      \<lparr>l_user = ''u2'', l_artist = Some ''b'', l_plays = 6\<rparr>,
      \<lparr>l_user = ''u1'', l_artist = None, l_plays = 5\<rparr>]"

definition example_profiles :: "profile list" where
  "example_profiles =
     [\<lparr>p_user = ''u1'', p_gender = Some ''f'', p_country = Some ''United Kingdom''\<rparr>,
      \<lparr>p_user = ''u2'', p_gender = Some ''f'', p_country = Some ''United Kingdom''\<rparr>,
      \<lparr>p_user = ''u3'', p_gender = Some ''m'', p_country = Some ''United Kingdom''\<rparr>,
      \<lparr>p_user = ''u4'', p_gender = Some ''f'', p_country = Some ''Germany''\<rparr>,
      \<lparr>p_user = ''u5'', p_gender = None, p_country = None\<rparr>]"

text \<open>
  A listening table with a negative count, which the integer column admits: the only way
  for an artist's plays within a subset of the users to exceed the plays of all users.
\<close>

definition signed_listens :: "listen list" where
  "signed_listens =
     [\<lparr>l_user = ''u1'', l_artist = Some ''a'', l_plays = 300000\<rparr>,
      \<lparr>l_user = ''u3'', l_artist = Some ''a'', l_plays = - 150000\<rparr>,
      \<lparr>l_user = ''u1'', l_artist = Some ''b'', l_plays = 250000\<rparr>]"

text \<open>
  Listening rows whose counts for one artist add up to \<open>2 ^ 63\<close>, one more than the
  largest signed 64-bit number, with a profile table of the single user.
\<close>

definition overflow_listens :: "listen list" where
  "overflow_listens =
     [\<lparr>l_user = ''u1'', l_artist = Some ''a'', l_plays = 9223372036854775807\<rparr>,
      \<lparr>l_user = ''u1'', l_artist = Some ''a'', l_plays = 1\<rparr>,
      \<lparr>l_user = ''u1'', l_artist = Some ''b'', l_plays = 250000\<rparr>]"

definition overflow_profiles :: "profile list" where
  "overflow_profiles =
     [\<lparr>p_user = ''u1'', p_gender = Some ''f'', p_country = Some ''United Kingdom''\<rparr>]"

text \<open>A profile table that lists the same user in two rows.\<close>

definition repeated_profiles :: "profile list" where
  "repeated_profiles =
     [\<lparr>p_user = ''u1'', p_gender = Some ''f'', p_country = Some ''United Kingdom''\<rparr>,
      \<lparr>p_user = ''u1'', p_gender = Some ''f'', p_country = Some ''United Kingdom''\<rparr>]"

text \<open>Three users of the demographic subset, each listening to an artist of her own.\<close>

definition three_listens :: "listen list" where
  "three_listens =
     [\<lparr>l_user = ''u1'', l_artist = Some ''a'', l_plays = 300000\<rparr>,
      \<lparr>l_user = ''u2'', l_artist = Some ''b'', l_plays = 240000\<rparr>,
      \<lparr>l_user = ''u3'', l_artist = Some ''c'', l_plays = 420000\<rparr>]"

definition three_profiles :: "profile list" where
  "three_profiles =
     [\<lparr>p_user = ''u1'', p_gender = Some ''f'', p_country = Some ''United Kingdom''\<rparr>,
      \<lparr>p_user = ''u2'', p_gender = Some ''f'', p_country = Some ''United Kingdom''\<rparr>,
      \<lparr>p_user = ''u3'', p_gender = Some ''f'', p_country = Some ''United Kingdom''\<rparr>]"

section \<open>Properties\<close>

subsection \<open>The demographic filter\<close>

text \<open>
  C4. The two selections of the filter cell together keep exactly the profile rows whose
  country is 'United Kingdom' and whose gender is 'f', in their original order; the
  surviving table \<^verbatim>\<open>df_user_UK_female\<close> lists the users of those rows and of no other.
\<close>

theorem demographic_filter:
  "select_female (select_UK profiles) =
     map p_user (filter (\<lambda>p. p_country p = Some ''United Kingdom'' \<and> p_gender p = Some ''f'') profiles)"
  by (simp add: select_female_def select_UK_def filter_map comp_def conj_commute)

subsection \<open>The type argument of predict\<close>

text \<open>
  C9. With a type other than 'user' and 'item', predict fails with UnboundLocalError;
  whenever predict returns a prediction, the type is 'user' or 'item'.
\<close>

theorem predict_type:
  "(type \<noteq> ''user'' \<and> type \<noteq> ''item'' \<longrightarrow> predict m s type = Inl UnboundLocalError) \<and>
   ((\<exists>pred. predict m s type = Inr pred) \<longrightarrow> type = ''user'' \<or> type = ''item'')"
  by (auto simp: predict_def)

theorem predict_type_witness:
  "predict [[1, 2], [3, 4]] [[0, 1], [1, 0]] ''rank'' = Inl UnboundLocalError \<and>
   predict [[1, 2], [3, 4]] [[0, 1], [1, 0]] ''item'' = Inr [[Some 2, Some 1], [Some 4, Some 3]] \<and>
   predict [[1, 2], [3, 4]] [[0, 1], [1, 0]] ''user'' = Inr [[Some 1, Some 2], [Some 3, Some 4]]"
proof -
  have other: "''rank'' \<noteq> ''user'' \<and> ''rank'' \<noteq> ''item''"
    by simp
  have "predict [[1, 2], [3, 4]] [[0, 1], [1, 0]] ''rank'' = Inl UnboundLocalError"
    using predict_type [of "''rank''" "[[1, 2], [3, 4]]" "[[0, 1], [1, 0]]"] other by blast
  moreover have "predict [[1, 2], [3, 4]] [[0, 1], [1, 0]] ''item'' = Inr [[Some 2, Some 1], [Some 4, Some 3]]"
    by code_simp
  moreover have "predict [[1, 2], [3, 4]] [[0, 1], [1, 0]] ''user'' = Inr [[Some 1, Some 2], [Some 3, Some 4]]"
    by code_simp
  ultimately show ?thesis by blast
qed

subsection \<open>Join and aggregation\<close>

lemma set_merge_inner:
  "set (merge_inner left right) = {e \<in> set left. l_user e \<in> set right}"
  by (auto simp: merge_inner_def)

lemma set_group_keys:
  "set (group_keys evs) = {(u, a). \<exists>e \<in> set evs. l_user e = u \<and> l_artist e = Some a}"
  by (auto simp: group_keys_def split: option.splits)

lemma distinct_group_keys: "distinct (group_keys evs)"
  by (simp add: group_keys_def)

lemma map_key_groupby:
  "map (\<lambda>r. (user r, artist r)) (groupby_user_artist_sum evs) = group_keys evs"
  by (simp add: groupby_user_artist_sum_def comp_def case_prod_beta)

lemma groupby_artist_known:
  assumes "r \<in> set (groupby_user_artist_sum evs)"
  shows "Some (artist r) \<in> l_artist ` set evs"
proof -
  from assms have "(user r, artist r) \<in> set (map (\<lambda>r. (user r, artist r)) (groupby_user_artist_sum evs))"
    by (simp add: image_iff) blast
  then have "(user r, artist r) \<in> set (group_keys evs)"
    by (simp only: map_key_groupby)
  then show ?thesis
    by (auto simp: set_group_keys image_iff) metis
qed

subsection \<open>Signed 64-bit sums\<close>

lemma int64_id: "in_int64 x \<Longrightarrow> int64 x = x"
  by (simp add: in_int64_def int64_def)

subsection \<open>The first five cells\<close>

lemma run_take2:
  "run_cells (take 2 (notebook d p)) k =
     Inr (k\<lparr>df_data := d, df_user := p, df_user_UK := select_UK p,
            df_user_UK_female := select_female (select_UK p),
            df := groupby_user_artist_sum (merge_inner d (select_female (select_UK p)))\<rparr>)"
  by (simp add: notebook_def cell_load_def cell_merge_def Let_def)

lemma run_take5:
  "run_cells (take 5 (notebook d p)) k =
     Inr (k\<lparr>df_data := d, df_user := p, df_user_UK := select_UK p,
            df_user_UK_female := select_female (select_UK p),
            df_artist := groupby_artist_sum d,
            df_top_artist := select_top (groupby_artist_sum d),
            top_artist := image_mset ta_artist (select_top (groupby_artist_sum d)),
            df := isin_artist (groupby_user_artist_sum (merge_inner d (select_female (select_UK p))))
                    (image_mset ta_artist (select_top (groupby_artist_sum d)))\<rparr>)"
  by (simp add: notebook_def cell_load_def cell_merge_def cell_artist_def cell_top_artist_def
      cell_restrict_def Let_def)

lemma top_artist_names:
  "image_mset ta_artist (select_top rows) =
     mset (map ta_artist (filter (\<lambda>r. 200000 < total_plays r) rows))"
  by (simp add: select_top_def)

lemma isin_top_artist:
  "isin_artist tab (image_mset ta_artist (select_top rows)) =
     filter (\<lambda>r. artist r \<in> set (map ta_artist (filter (\<lambda>r. 200000 < total_plays r) rows))) tab"
  unfolding top_artist_names isin_artist_def by (simp only: set_mset_mset)

lemma example_grouped:
  "groupby_user_artist_sum (merge_inner example_listens (select_female (select_UK example_profiles))) =
     [\<lparr>user = ''u1'', artist = ''a'', plays = 300000\<rparr>,
      \<lparr>user = ''u1'', artist = ''c'', plays = 10\<rparr>,
      \<lparr>user = ''u2'', artist = ''b'', plays = 250006\<rparr>]"
  by code_simp

subsection \<open>The top artists\<close>

lemma set_top_artist:
  "set_mset (image_mset ta_artist (select_top (groupby_artist_sum evs))) =
     {a. Some a \<in> l_artist ` set evs \<and> 200000 < int64 (total_plays_of evs a)}"
proof -
  have keys: "set (List.map_filter l_artist evs) = {a. Some a \<in> l_artist ` set evs}"
    by (induction evs) (auto simp: map_filter_simps image_iff split: option.splits)
  have rows: "set (groupby_artist_sum evs) =
      (\<lambda>a. \<lparr>ta_artist = a, total_plays = int64 (total_plays_of evs a)\<rparr>) ` {a. Some a \<in> l_artist ` set evs}"
    by (simp add: groupby_artist_sum_def total_plays_of_def keys)
  have "set_mset (select_top (groupby_artist_sum evs)) =
      (\<lambda>a. \<lparr>ta_artist = a, total_plays = int64 (total_plays_of evs a)\<rparr>) `
        {a. Some a \<in> l_artist ` set evs \<and> 200000 < int64 (total_plays_of evs a)}"
    unfolding select_top_def set_mset_filter set_mset_mset rows by auto
  then show ?thesis
    by (simp add: image_image)
qed

lemma overflow_grouped:
  "groupby_user_artist_sum (merge_inner overflow_listens (select_female (select_UK overflow_profiles))) =
     [\<lparr>user = ''u1'', artist = ''a'', plays = - 9223372036854775808\<rparr>,
      \<lparr>user = ''u1'', artist = ''b'', plays = 250000\<rparr>]"
  by code_simp

lemma overflow_restricted:
  "isin_artist [\<lparr>user = ''u1'', artist = ''a'', plays = - 9223372036854775808\<rparr>,
                \<lparr>user = ''u1'', artist = ''b'', plays = 250000\<rparr>]
     (image_mset ta_artist (select_top (groupby_artist_sum overflow_listens))) =
     [\<lparr>user = ''u1'', artist = ''b'', plays = 250000\<rparr>]"
  unfolding isin_top_artist by code_simp

lemma overflow_top_artist:
  "image_mset ta_artist (select_top (groupby_artist_sum overflow_listens)) = {#''b''#}"
proof -
  have "map ta_artist (filter (\<lambda>r. 200000 < total_plays r) (groupby_artist_sum overflow_listens)) = [''b'']"
    by code_simp
  then show ?thesis
    unfolding top_artist_names by simp
qed

lemma overflow_total: "total_plays_of overflow_listens ''a'' = 9223372036854775808"
  by code_simp

text \<open>
  C5, as amended. After the restriction cell, the working table \<^verbatim>\<open>df\<close> holds exactly
  the rows of the aggregated table (the \<^verbatim>\<open>df\<close> left by the merge cell) whose artist has
  a total play count across the whole listening-events table, taken as the signed 64-bit
  sum that pandas computes, strictly greater than 200000. For an artist whose total lies
  within the signed 64-bit range this is the exact total: there every surviving artist is
  above the threshold and no qualifying row is dropped.
\<close>

theorem restriction_to_top_artists:
  assumes "run_cells (take 2 (notebook d p)) k = Inr s2"
    and "run_cells (take 5 (notebook d p)) k = Inr s5"
  shows "df s5 = filter (\<lambda>r. 200000 < int64 (total_plays_of d (artist r))) (df s2) \<and>
         (\<forall>r. r \<in> set (df s5) \<longleftrightarrow>
              r \<in> set (df s2) \<and> 200000 < int64 (total_plays_of d (artist r))) \<and>
         (\<forall>r. in_int64 (total_plays_of d (artist r)) \<longrightarrow>
              (r \<in> set (df s5) \<longleftrightarrow> r \<in> set (df s2) \<and> 200000 < total_plays_of d (artist r)))"
proof -
  let ?tab = "groupby_user_artist_sum (merge_inner d (select_female (select_UK p)))"
  have s2: "df s2 = ?tab"
    using assms(1) by (auto simp: run_take2)
  have s5: "df s5 = isin_artist ?tab (image_mset ta_artist (select_top (groupby_artist_sum d)))"
    using assms(2) by (auto simp: run_take5)
  have known: "Some (artist r) \<in> l_artist ` set d" if "r \<in> set ?tab" for r
    using groupby_artist_known [OF that] by (auto simp: set_merge_inner)
  have "isin_artist ?tab (image_mset ta_artist (select_top (groupby_artist_sum d))) =
          filter (\<lambda>r. 200000 < int64 (total_plays_of d (artist r))) ?tab"
    unfolding isin_artist_def set_top_artist
    by (rule filter_cong) (use known in auto)
  with s2 s5 have eq: "df s5 = filter (\<lambda>r. 200000 < int64 (total_plays_of d (artist r))) (df s2)"
    by simp
  then have mem: "r \<in> set (df s5) \<longleftrightarrow>
      r \<in> set (df s2) \<and> 200000 < int64 (total_plays_of d (artist r))" for r
    by simp
  have "r \<in> set (df s5) \<longleftrightarrow> r \<in> set (df s2) \<and> 200000 < total_plays_of d (artist r)"
    if "in_int64 (total_plays_of d (artist r))" for r
    using mem [of r] int64_id [OF that] by simp
  with eq mem show ?thesis
    by blast
qed

theorem restriction_to_top_artists_witness:
  "\<exists>s2 s5. run_cells (take 2 (notebook example_listens example_profiles)) fresh_kernel = Inr s2 \<and>
      run_cells (take 5 (notebook example_listens example_profiles)) fresh_kernel = Inr s5 \<and>
      df s2 = [\<lparr>user = ''u1'', artist = ''a'', plays = 300000\<rparr>,
               \<lparr>user = ''u1'', artist = ''c'', plays = 10\<rparr>,
               \<lparr>user = ''u2'', artist = ''b'', plays = 250006\<rparr>] \<and>
      df s5 = [\<lparr>user = ''u1'', artist = ''a'', plays = 300000\<rparr>,
               \<lparr>user = ''u2'', artist = ''b'', plays = 250006\<rparr>] \<and>
      in_int64 (total_plays_of example_listens ''c'') \<and>
      \<not> 200000 < total_plays_of example_listens ''c'' \<and>
      \<lparr>user = ''u1'', artist = ''c'', plays = 10\<rparr> \<notin> set (df s5)"
proof -
  obtain s2 where r2: "run_cells (take 2 (notebook example_listens example_profiles)) fresh_kernel = Inr s2"
    and d2: "df s2 = groupby_user_artist_sum (merge_inner example_listens (select_female (select_UK example_profiles)))"
    by (simp add: run_take2)
  obtain s5 where r5: "run_cells (take 5 (notebook example_listens example_profiles)) fresh_kernel = Inr s5"
    by (simp add: run_take5)
  note fact = restriction_to_top_artists [OF r2 r5]
  from fact have "df s5 = filter (\<lambda>r. 200000 < int64 (total_plays_of example_listens (artist r))) (df s2)"
    by blast
  also have "\<dots> = [\<lparr>user = ''u1'', artist = ''a'', plays = 300000\<rparr>,
                    \<lparr>user = ''u2'', artist = ''b'', plays = 250006\<rparr>]"
    unfolding d2 example_grouped by code_simp
  finally have d5: "df s5 = [\<lparr>user = ''u1'', artist = ''a'', plays = 300000\<rparr>,
                            \<lparr>user = ''u2'', artist = ''b'', plays = 250006\<rparr>]" .
  have range: "in_int64 (total_plays_of example_listens (artist \<lparr>user = ''u1'', artist = ''c'', plays = 10\<rparr>))"
    by code_simp
  have low: "\<not> 200000 < total_plays_of example_listens (artist \<lparr>user = ''u1'', artist = ''c'', plays = 10\<rparr>)"
    by code_simp
  from fact range low have out: "\<lparr>user = ''u1'', artist = ''c'', plays = 10\<rparr> \<notin> set (df s5)"
    by blast
  from range low have "in_int64 (total_plays_of example_listens ''c'')"
    and "\<not> 200000 < total_plays_of example_listens ''c''"
    by simp_all
  with r2 r5 d2 d5 out show ?thesis
    using example_grouped by simp
qed

text \<open>
  C5, as stated, fails when a 64-bit sum wraps around. In the listening rows of the
  overflow example the counts of artist a add up to \<open>2 ^ 63\<close>, above 200000, and the
  aggregated table holds a row of artist a; pandas computes the total as \<open>- (2 ^ 63)\<close>
  and the restriction drops that row.
\<close>

theorem restriction_to_top_artists_counterexample:
  "200000 < total_plays_of overflow_listens ''a'' \<and>
   map_sum id df (run_cells (take 2 (notebook overflow_listens overflow_profiles)) fresh_kernel) =
     Inr [\<lparr>user = ''u1'', artist = ''a'', plays = - 9223372036854775808\<rparr>,
          \<lparr>user = ''u1'', artist = ''b'', plays = 250000\<rparr>] \<and>
   map_sum id df (run_cells (take 5 (notebook overflow_listens overflow_profiles)) fresh_kernel) =
     Inr [\<lparr>user = ''u1'', artist = ''b'', plays = 250000\<rparr>]"
  by (simp add: overflow_total run_take2 run_take5 overflow_grouped overflow_restricted)

text \<open>
  C10, as amended. An artist is in \<^verbatim>\<open>top_artist\<close> exactly when it occurs in the
  listening-events table and its play count summed over that whole table, as the signed
  64-bit sum that pandas computes, exceeds 200000. The profile table has no influence: two
  runs on the same listening events and any two profile tables give the same
  \<^verbatim>\<open>top_artist\<close>. For an artist whose global total lies within the signed 64-bit range
  the comparison uses the exact global total, and such an artist whose plays exceed 200000
  within the joined demographic subset but not over the whole table is not in
  \<^verbatim>\<open>top_artist\<close>.
\<close>

theorem top_artist_global_total:
  assumes "run_cells (take 5 (notebook d p)) k = Inr s"
    and "run_cells (take 5 (notebook d p')) k' = Inr s'"
  shows "(a \<in># top_artist s \<longleftrightarrow>
            Some a \<in> l_artist ` set d \<and> 200000 < int64 (total_plays_of d a)) \<and>
         top_artist s' = top_artist s \<and>
         (in_int64 (total_plays_of d a) \<longrightarrow>
            (a \<in># top_artist s \<longleftrightarrow> Some a \<in> l_artist ` set d \<and> 200000 < total_plays_of d a)) \<and>
         (in_int64 (total_plays_of d a) \<and>
            200000 < total_plays_of (merge_inner d (df_user_UK_female s)) a \<and>
            \<not> 200000 < total_plays_of d a \<longrightarrow> a \<notin># top_artist s)"
proof -
  have s: "top_artist s = image_mset ta_artist (select_top (groupby_artist_sum d))"
    using assms(1) by (auto simp: run_take5)
  have s': "top_artist s' = image_mset ta_artist (select_top (groupby_artist_sum d))"
    using assms(2) by (auto simp: run_take5)
  have mem: "a \<in># top_artist s \<longleftrightarrow>
      Some a \<in> l_artist ` set d \<and> 200000 < int64 (total_plays_of d a)"
    unfolding s set_top_artist by simp
  have exact: "a \<in># top_artist s \<longleftrightarrow> Some a \<in> l_artist ` set d \<and> 200000 < total_plays_of d a"
    if "in_int64 (total_plays_of d a)"
    using mem int64_id [OF that] by simp
  from s s' have "top_artist s' = top_artist s"
    by simp
  with mem exact show ?thesis
    by blast
qed

theorem top_artist_global_total_witness:
  "\<exists>s s'. run_cells (take 5 (notebook signed_listens example_profiles)) fresh_kernel = Inr s \<and>
      run_cells (take 5 (notebook signed_listens [])) fresh_kernel = Inr s' \<and>
      top_artist s = {#''b''#} \<and> top_artist s' = {#''b''#} \<and>
      in_int64 (total_plays_of signed_listens ''a'') \<and>
      200000 < total_plays_of (merge_inner signed_listens (df_user_UK_female s)) ''a'' \<and>
      \<not> 200000 < total_plays_of signed_listens ''a'' \<and>
      ''a'' \<notin># top_artist s"
proof -
  obtain s where r: "run_cells (take 5 (notebook signed_listens example_profiles)) fresh_kernel = Inr s"
    and f: "df_user_UK_female s = select_female (select_UK example_profiles)"
    and t: "top_artist s = image_mset ta_artist (select_top (groupby_artist_sum signed_listens))"
    by (simp add: run_take5)
  obtain s' where r': "run_cells (take 5 (notebook signed_listens [])) fresh_kernel = Inr s'"
    by (simp add: run_take5)
  have range: "in_int64 (total_plays_of signed_listens ''a'')"
    by code_simp
  have sub: "200000 < total_plays_of (merge_inner signed_listens (df_user_UK_female s)) ''a''"
    unfolding f by code_simp
  have glob: "\<not> 200000 < total_plays_of signed_listens ''a''"
    by code_simp
  have "map ta_artist (filter (\<lambda>r. 200000 < total_plays r) (groupby_artist_sum signed_listens)) = [''b'']"
    by code_simp
  then have tv: "top_artist s = {#''b''#}"
    unfolding t top_artist_names by simp
  note fact = top_artist_global_total [OF r r', of "''a''"]
  from fact range sub glob have out: "''a'' \<notin># top_artist s"
    by blast
  from fact have "top_artist s' = top_artist s"
    by blast
  with tv have tv': "top_artist s' = {#''b''#}"
    by simp
  from r r' tv tv' range sub glob out show ?thesis
    by blast
qed

text \<open>
  C10, as stated, fails when the 64-bit sum wraps around. In the overflow example artist
  a occurs in the listening-events table with a global total of \<open>2 ^ 63\<close>, above
  200000, and is not in \<^verbatim>\<open>top_artist\<close>, which holds artist b alone.
\<close>

theorem top_artist_global_total_counterexample:
  "Some ''a'' \<in> l_artist ` set overflow_listens \<and>
   200000 < total_plays_of overflow_listens ''a'' \<and>
   map_sum id top_artist (run_cells (take 5 (notebook overflow_listens overflow_profiles)) fresh_kernel) =
     Inr {#''b''#}"
proof -
  have "Some ''a'' \<in> l_artist ` set overflow_listens"
    by (simp add: overflow_listens_def)
  then show ?thesis
    by (simp add: overflow_total run_take5 overflow_top_artist)
qed

subsection \<open>The join and the aggregation together\<close>

lemma merge_inner_replicate:
  "merge_inner evs us = concat (map (\<lambda>e. replicate (count_list us (l_user e)) e) evs)"
proof -
  have one: "map (\<lambda>_. e) (filter (\<lambda>u. u = l_user e) us) = replicate (count_list us (l_user e)) e" for e
  proof -
    have "(\<lambda>u. u = l_user e) = ((=) (l_user e))"
      by auto
    then show ?thesis
      by (simp add: map_replicate_const count_list_eq_length_filter)
  qed
  show ?thesis
    unfolding merge_inner_def by (simp only: one)
qed

lemma merge_inner_distinct:
  "distinct right \<Longrightarrow> merge_inner left right = filter (\<lambda>e. l_user e \<in> set right) left"
proof (induction left)
  case Nil
  then show ?case by (simp add: merge_inner_def)
next
  case (Cons e es)
  have one: "filter (\<lambda>u. u = l_user e) right = (if l_user e \<in> set right then [l_user e] else [])"
    using Cons.prems
  proof (induction right)
    case Nil
    then show ?case by simp
  next
    case (Cons a right)
    then show ?case by (auto simp: filter_empty_conv)
  qed
  from Cons show ?case by (simp add: merge_inner_def one)
qed

lemma groupby_row:
  "r \<in> set (groupby_user_artist_sum evs) \<Longrightarrow>
     plays r = int64 (\<Sum>e\<leftarrow>filter (\<lambda>e. l_user e = user r \<and> l_artist e = Some (artist r)) evs. l_plays e)"
  by (auto simp: groupby_user_artist_sum_def)

text \<open>
  C6, as amended. In the join, every listening event whose user is in the filtered
  demographic table occurs once for each row of that table with its user, in the order of
  the listening events, and no other event occurs; when the filtered table lists no user
  twice, the join is exactly the listening events of its users. The aggregation of the
  joined rows has no two rows with the same user and artist, has a row for every pair that
  occurs among the joined rows, and the plays of a row is the signed 64-bit sum of the play
  counts of all joined rows of its pair, which is their exact sum whenever that lies
  within the signed 64-bit range.
\<close>

theorem join_and_aggregate:
  "merge_inner evs us = concat (map (\<lambda>e. replicate (count_list us (l_user e)) e) evs) \<and>
   set (merge_inner evs us) = {e \<in> set evs. l_user e \<in> set us} \<and>
   (distinct us \<longrightarrow> merge_inner evs us = filter (\<lambda>e. l_user e \<in> set us) evs) \<and>
   distinct (map (\<lambda>r. (user r, artist r)) (groupby_user_artist_sum (merge_inner evs us))) \<and>
   set (map (\<lambda>r. (user r, artist r)) (groupby_user_artist_sum (merge_inner evs us))) =
     {(u, a). \<exists>e \<in> set (merge_inner evs us). l_user e = u \<and> l_artist e = Some a} \<and>
   (\<forall>r \<in> set (groupby_user_artist_sum (merge_inner evs us)).
      plays r = int64 (\<Sum>e\<leftarrow>filter (\<lambda>e. l_user e = user r \<and> l_artist e = Some (artist r)) (merge_inner evs us). l_plays e) \<and>
      (in_int64 (\<Sum>e\<leftarrow>filter (\<lambda>e. l_user e = user r \<and> l_artist e = Some (artist r)) (merge_inner evs us). l_plays e) \<longrightarrow>
       plays r = (\<Sum>e\<leftarrow>filter (\<lambda>e. l_user e = user r \<and> l_artist e = Some (artist r)) (merge_inner evs us). l_plays e)))"
proof -
  let ?m = "merge_inner evs us"
  let ?sum = "\<lambda>r. (\<Sum>e\<leftarrow>filter (\<lambda>e. l_user e = user r \<and> l_artist e = Some (artist r)) ?m. l_plays e)"
  have a: "?m = concat (map (\<lambda>e. replicate (count_list us (l_user e)) e) evs)"
    by (rule merge_inner_replicate)
  have b: "set ?m = {e \<in> set evs. l_user e \<in> set us}"
    by (rule set_merge_inner)
  have c: "distinct us \<longrightarrow> ?m = filter (\<lambda>e. l_user e \<in> set us) evs"
    using merge_inner_distinct [of us evs] by blast
  have d: "distinct (map (\<lambda>r. (user r, artist r)) (groupby_user_artist_sum ?m))"
    by (simp only: map_key_groupby distinct_group_keys)
  have e: "set (map (\<lambda>r. (user r, artist r)) (groupby_user_artist_sum ?m)) =
      {(u, a). \<exists>e \<in> set ?m. l_user e = u \<and> l_artist e = Some a}"
    by (simp only: map_key_groupby set_group_keys)
  have f: "\<forall>r \<in> set (groupby_user_artist_sum ?m).
      plays r = int64 (?sum r) \<and> (in_int64 (?sum r) \<longrightarrow> plays r = ?sum r)"
  proof (intro ballI conjI impI)
    fix r
    assume r: "r \<in> set (groupby_user_artist_sum ?m)"
    show w: "plays r = int64 (?sum r)"
      using r by (rule groupby_row)
    assume "in_int64 (?sum r)"
    then show "plays r = ?sum r"
      using w by (simp only: int64_id)
  qed
  show ?thesis
    using a b c d e f by (intro conjI)
qed

theorem join_and_aggregate_witness:
  "distinct [''u1'', ''u2''] \<and>
   select_female (select_UK example_profiles) = [''u1'', ''u2''] \<and>
   merge_inner example_listens [''u1'', ''u2''] =
     [\<lparr>l_user = ''u2'', l_artist = Some ''b'', l_plays = 250000\<rparr>,
      \<lparr>l_user = ''u1'', l_artist = Some ''a'', l_plays = 300000\<rparr>,
      \<lparr>l_user = ''u1'', l_artist = Some ''c'', l_plays = 10\<rparr>,
      \<lparr>l_user = ''u2'', l_artist = Some ''b'', l_plays = 6\<rparr>,
      \<lparr>l_user = ''u1'', l_artist = None, l_plays = 5\<rparr>] \<and>
   \<lparr>user = ''u2'', artist = ''b'', plays = 250006\<rparr>
     \<in> set (groupby_user_artist_sum (merge_inner example_listens [''u1'', ''u2''])) \<and>
   in_int64 (\<Sum>e\<leftarrow>filter (\<lambda>e. l_user e = ''u2'' \<and> l_artist e = Some ''b'')
          (merge_inner example_listens [''u1'', ''u2'']). l_plays e) \<and>
   plays \<lparr>user = ''u2'', artist = ''b'', plays = 250006\<rparr> =
     (\<Sum>e\<leftarrow>filter (\<lambda>e. l_user e = ''u2'' \<and> l_artist e = Some ''b'')
          (merge_inner example_listens [''u1'', ''u2'']). l_plays e)"
proof -
  let ?r = "\<lparr>user = ''u2'', artist = ''b'', plays = 250006\<rparr>"
  have d: "distinct [''u1'', ''u2'']"
    by simp
  have f: "select_female (select_UK example_profiles) = [''u1'', ''u2'']"
    by code_simp
  have m: "filter (\<lambda>e. l_user e \<in> set [''u1'', ''u2'']) example_listens =
     [\<lparr>l_user = ''u2'', l_artist = Some ''b'', l_plays = 250000\<rparr>,
      \<lparr>l_user = ''u1'', l_artist = Some ''a'', l_plays = 300000\<rparr>,
      \<lparr>l_user = ''u1'', l_artist = Some ''c'', l_plays = 10\<rparr>,
      \<lparr>l_user = ''u2'', l_artist = Some ''b'', l_plays = 6\<rparr>,
      \<lparr>l_user = ''u1'', l_artist = None, l_plays = 5\<rparr>]"
    by code_simp
  have g: "?r \<in> set (groupby_user_artist_sum (merge_inner example_listens [''u1'', ''u2'']))"
    using example_grouped unfolding f by simp
  have i: "in_int64 (\<Sum>e\<leftarrow>filter (\<lambda>e. l_user e = user ?r \<and> l_artist e = Some (artist ?r))
          (merge_inner example_listens [''u1'', ''u2'']). l_plays e)"
    by code_simp
  note fact = join_and_aggregate [of example_listens "[''u1'', ''u2'']"]
  from fact d have j: "merge_inner example_listens [''u1'', ''u2''] =
      filter (\<lambda>e. l_user e \<in> set [''u1'', ''u2'']) example_listens"
    by blast
  from fact g i have "plays ?r =
     (\<Sum>e\<leftarrow>filter (\<lambda>e. l_user e = user ?r \<and> l_artist e = Some (artist ?r))
          (merge_inner example_listens [''u1'', ''u2'']). l_plays e)"
    by blast
  with i j show ?thesis
    using d f m g by simp
qed

text \<open>
  C6, as stated, fails in two ways. With the profile table that lists user u1 in two
  rows, the join holds every listening event of u1 twice, not exactly the listening
  events. With the single profile row, the counts of the joined rows of user u1 and artist
  a add up to \<open>2 ^ 63\<close>, and the aggregated row holds \<open>- (2 ^ 63)\<close>, the wrapped
  64-bit sum.
\<close>

theorem join_and_aggregate_counterexample:
  "select_female (select_UK repeated_profiles) = [''u1'', ''u1''] \<and>
   merge_inner overflow_listens [''u1'', ''u1''] =
     [\<lparr>l_user = ''u1'', l_artist = Some ''a'', l_plays = 9223372036854775807\<rparr>,
      \<lparr>l_user = ''u1'', l_artist = Some ''a'', l_plays = 9223372036854775807\<rparr>,
      \<lparr>l_user = ''u1'', l_artist = Some ''a'', l_plays = 1\<rparr>,
      \<lparr>l_user = ''u1'', l_artist = Some ''a'', l_plays = 1\<rparr>,
      \<lparr>l_user = ''u1'', l_artist = Some ''b'', l_plays = 250000\<rparr>,
      \<lparr>l_user = ''u1'', l_artist = Some ''b'', l_plays = 250000\<rparr>] \<and>
   select_female (select_UK overflow_profiles) = [''u1''] \<and>
   groupby_user_artist_sum (merge_inner overflow_listens [''u1'']) =
     [\<lparr>user = ''u1'', artist = ''a'', plays = - 9223372036854775808\<rparr>,
      \<lparr>user = ''u1'', artist = ''b'', plays = 250000\<rparr>] \<and>
   (\<Sum>e\<leftarrow>filter (\<lambda>e. l_user e = ''u1'' \<and> l_artist e = Some ''a'')
        (merge_inner overflow_listens [''u1'']). l_plays e) = 9223372036854775808"
proof -
  have a: "select_female (select_UK repeated_profiles) = [''u1'', ''u1'']"
    by code_simp
  have b: "merge_inner overflow_listens [''u1'', ''u1''] =
     [\<lparr>l_user = ''u1'', l_artist = Some ''a'', l_plays = 9223372036854775807\<rparr>,
      \<lparr>l_user = ''u1'', l_artist = Some ''a'', l_plays = 9223372036854775807\<rparr>,
      \<lparr>l_user = ''u1'', l_artist = Some ''a'', l_plays = 1\<rparr>,
      \<lparr>l_user = ''u1'', l_artist = Some ''a'', l_plays = 1\<rparr>,
      \<lparr>l_user = ''u1'', l_artist = Some ''b'', l_plays = 250000\<rparr>,
      \<lparr>l_user = ''u1'', l_artist = Some ''b'', l_plays = 250000\<rparr>]"
    by code_simp
  have c: "select_female (select_UK overflow_profiles) = [''u1'']"
    by code_simp
  have d: "groupby_user_artist_sum (merge_inner overflow_listens [''u1'']) =
     [\<lparr>user = ''u1'', artist = ''a'', plays = - 9223372036854775808\<rparr>,
      \<lparr>user = ''u1'', artist = ''b'', plays = 250000\<rparr>]"
    by code_simp
  have e: "(\<Sum>e\<leftarrow>filter (\<lambda>e. l_user e = ''u1'' \<and> l_artist e = Some ''a'')
        (merge_inner overflow_listens [''u1'']). l_plays e) = 9223372036854775808"
    by code_simp
  show ?thesis
    using a b c d e by (intro conjI)
qed

subsection \<open>The pivot\<close>

lemma play_count_find:
  "distinct (map (\<lambda>r. (artist r, user r)) tab) \<Longrightarrow>
     play_count tab u a = (case find (\<lambda>r. artist r = a \<and> user r = u) tab of None \<Rightarrow> 0 | Some r \<Rightarrow> plays r)"
proof (induction tab)
  case Nil
  then show ?case by (simp add: play_count_def)
next
  case (Cons r rs)
  show ?case
  proof (cases "artist r = a \<and> user r = u")
    case True
    with Cons.prems have "(a, u) \<notin> (\<lambda>r. (artist r, user r)) ` set rs"
      by auto
    then have "filter (\<lambda>r. user r = u \<and> artist r = a) rs = []"
      by (auto simp: filter_empty_conv)
    with True show ?thesis
      by (simp add: play_count_def)
  next
    case False
    with Cons show ?thesis
      by (auto simp: play_count_def)
  qed
qed

lemma pivot_matrix_distinct:
  assumes "distinct (map (\<lambda>r. (artist r, user r)) tab)"
  shows "pivot_matrix tab =
     Inr \<lparr>index = sort (remdups (map artist tab)), columns = sort (remdups (map user tab)),
          cells = map (\<lambda>a. map (\<lambda>u. real_of_int (play_count tab u a)) (sort (remdups (map user tab))))
                    (sort (remdups (map artist tab)))\<rparr>"
  using assms
  by (simp add: pivot_matrix_def pivot_def fillna0_def Let_def comp_def play_count_find
      split: option.splits)

lemma pivot_matrix_dense:
  assumes "pivot_matrix tab = Inr m"
  shows "artist_by_user_matrix tab m"
proof -
  from assms have d: "distinct (map (\<lambda>r. (artist r, user r)) tab)"
    by (auto simp: pivot_matrix_def pivot_def split: if_splits)
  from assms show ?thesis
    unfolding pivot_matrix_distinct [OF d] artist_by_user_matrix_def dense_matrix_def
    by auto
qed

lemma restricted_distinct:
  "distinct (map (\<lambda>r. (artist r, user r)) (isin_artist (groupby_user_artist_sum evs) ta))"
proof -
  have "distinct (map (\<lambda>r. (user r, artist r)) (groupby_user_artist_sum evs))"
    by (simp only: map_key_groupby distinct_group_keys)
  then have "distinct (map (\<lambda>r. (user r, artist r)) (isin_artist (groupby_user_artist_sum evs) ta))"
    unfolding isin_artist_def by (rule distinct_map_filter)
  moreover have "distinct (map prod.swap ys)" if "distinct ys" for ys :: "(string \<times> string) list"
    using that by (auto simp: distinct_map inj_on_def)
  ultimately have "distinct (map prod.swap (map (\<lambda>r. (user r, artist r)) (isin_artist (groupby_user_artist_sum evs) ta)))"
    by blast
  then show ?thesis
    by (simp add: comp_def)
qed

lemma run_cells_append:
  "run_cells (cs @ ds) k = (case run_cells cs k of Inl e \<Rightarrow> Inl e | Inr k' \<Rightarrow> run_cells ds k')"
  by (induction cs arbitrary: k) (auto split: sum.splits)

lemma take6: "take 6 (notebook d p) = take 5 (notebook d p) @ [cell_matrix]"
  by (simp add: notebook_def)

lemma take7: "take 7 (notebook d p) = take 5 (notebook d p) @ [cell_matrix, cell_similarity]"
  by (simp add: notebook_def)

lemma take8: "8 \<le> n \<Longrightarrow> take n (notebook d p) = take 5 (notebook d p) @ [cell_matrix, cell_similarity, cell_predict]"
  by (simp add: notebook_def)

lemma cell_matrix_Inr:
  "cell_matrix k = Inr k' \<Longrightarrow> pivot_matrix (df k) = Inr (matrix k') \<and> df k' = df k \<and> matrix_sparse k' = cells (matrix k')"
  by (auto simp: cell_matrix_def csr_matrix_def split: sum.splits)

lemma cell_similarity_Inr:
  "cell_similarity k = Inr k' \<Longrightarrow> matrix k' = matrix k \<and> df k' = df k \<and> matrix_sparse k' = matrix_sparse k"
  by (auto simp: cell_similarity_def split: sum.splits)

lemma cell_predict_Inr:
  "cell_predict k = Inr k' \<Longrightarrow> matrix k' = matrix k \<and> df k' = df k \<and> matrix_sparse k' = matrix_sparse k
     \<and> item_similarity k' = item_similarity k \<and> user_similarity k' = user_similarity k"
  by (auto simp: cell_predict_def split: sum.splits)

lemma run_cells_one: "run_cells [c] k = c k"
  by (simp split: sum.splits)

lemma run_from_matrix:
  assumes "6 \<le> n" and "run_cells (take n (notebook d p)) k = Inr s"
  shows "pivot_matrix (df s) = Inr (matrix s) \<and> matrix_sparse s = cells (matrix s)"
proof -
  obtain s5 where s5: "run_cells (take 5 (notebook d p)) k = Inr s5"
    by (simp add: run_take5)
  consider "n = 6" | "n = 7" | "8 \<le> n"
    using assms(1) by linarith
  then show ?thesis
  proof cases
    case 1
    have "run_cells (take 6 (notebook d p)) k = cell_matrix s5"
      by (simp only: take6 run_cells_append s5 sum.case run_cells_one)
    with assms(2) 1 have "cell_matrix s5 = Inr s"
      by simp
    then show ?thesis
      using cell_matrix_Inr [of s5 s] by simp
  next
    case 2
    have "run_cells (take 7 (notebook d p)) k =
        (case cell_matrix s5 of Inl e \<Rightarrow> Inl e | Inr s6 \<Rightarrow> cell_similarity s6)"
      by (cases "cell_matrix s5") (simp_all add: take7 run_cells_append s5 split: sum.splits)
    with assms(2) 2 obtain s6 where "cell_matrix s5 = Inr s6" "cell_similarity s6 = Inr s"
      by (cases "cell_matrix s5") simp_all
    then show ?thesis
      using cell_matrix_Inr [of s5 s6] cell_similarity_Inr [of s6 s] by simp
  next
    case 3
    have "run_cells (take n (notebook d p)) k =
        (case cell_matrix s5 of Inl e \<Rightarrow> Inl e
         | Inr s6 \<Rightarrow> (case cell_similarity s6 of Inl e \<Rightarrow> Inl e | Inr s7 \<Rightarrow> cell_predict s7))"
    proof (cases "cell_matrix s5")
      case (Inl e)
      then show ?thesis
        by (simp add: take8 [OF 3] run_cells_append s5)
    next
      case (Inr s6)
      then show ?thesis
        by (cases "cell_similarity s6")
          (simp_all add: take8 [OF 3] run_cells_append s5 split: sum.splits)
    qed
    with assms(2) obtain s6 where s6: "cell_matrix s5 = Inr s6"
      and "(case cell_similarity s6 of Inl e \<Rightarrow> Inl e | Inr s7 \<Rightarrow> cell_predict s7) = Inr s"
      by (cases "cell_matrix s5") simp_all
    then obtain s7 where "cell_similarity s6 = Inr s7" "cell_predict s7 = Inr s"
      by (cases "cell_similarity s6") simp_all
    with s6 show ?thesis
      using cell_matrix_Inr [of s5 s6] cell_similarity_Inr [of s6 s7] cell_predict_Inr [of s7 s]
      by simp
  qed
qed

lemma run_take6_ex:
  "\<exists>s. run_cells (take 6 (notebook d p)) k = Inr s"
  by (simp add: take6 run_cells_append run_take5 cell_matrix_def pivot_matrix_distinct [OF restricted_distinct])

subsection \<open>The run on the example files\<close>

lemma cosine_distances_diag2:
  assumes "x \<noteq> 0" and "y \<noteq> 0"
  shows "cosine_distances [[x, 0], [0, y]] = [[0, 1], [1, 0]]"
  using assms
  by (simp add: cosine_distances_def sk_cosine_similarity_def normalize_rows_def norm2_def
      dot_product_def clip_def Let_def numeral_2_eq_2)

lemma example_restricted:
  "isin_artist (groupby_user_artist_sum (merge_inner example_listens (select_female (select_UK example_profiles))))
     (image_mset ta_artist (select_top (groupby_artist_sum example_listens))) =
   [\<lparr>user = ''u1'', artist = ''a'', plays = 300000\<rparr>,
    \<lparr>user = ''u2'', artist = ''b'', plays = 250006\<rparr>]"
  unfolding example_grouped isin_top_artist by code_simp

lemma example_pivot_raw:
  "pivot [\<lparr>user = ''u1'', artist = ''a'', plays = 300000\<rparr>,
          \<lparr>user = ''u2'', artist = ''b'', plays = 250006\<rparr>] =
   Inr \<lparr>index = [''a'', ''b''], columns = [''u1'', ''u2''],
        cells = [[Some 300000, None], [None, Some 250006]]\<rparr>"
  by code_simp

lemma example_pivot:
  "pivot_matrix [\<lparr>user = ''u1'', artist = ''a'', plays = 300000\<rparr>,
                 \<lparr>user = ''u2'', artist = ''b'', plays = 250006\<rparr>] =
   Inr \<lparr>index = [''a'', ''b''], columns = [''u1'', ''u2''], cells = [[300000, 0], [0, 250006]]\<rparr>"
  by (simp add: pivot_matrix_def example_pivot_raw fillna0_def)

lemma example_T: "mat_T [[300000, 0], [0, 250006 :: real]] = [[300000, 0], [0, 250006]]"
  by code_simp

lemma example_item_prediction:
  "predict [[300000, 0], [0, 250006]] [[0, 1], [1, 0]] ''item'' =
     Inr [[Some 0, Some 300000], [Some 250006, Some 0]]"
  by code_simp

lemma example_user_prediction:
  "predict [[300000, 0], [0, 250006]] [[0, 1], [1, 0]] ''user'' =
     Inr [[Some 24997, Some 275003], [Some 275003, Some (- 24997)]]"
  by code_simp

lemma example_run:
  "\<exists>s. run_cells (notebook example_listens example_profiles) k = Inr s \<and>
     df s = [\<lparr>user = ''u1'', artist = ''a'', plays = 300000\<rparr>,
             \<lparr>user = ''u2'', artist = ''b'', plays = 250006\<rparr>] \<and>
     matrix s = \<lparr>index = [''a'', ''b''], columns = [''u1'', ''u2''], cells = [[300000, 0], [0, 250006]]\<rparr> \<and>
     matrix_sparse s = [[300000, 0], [0, 250006]] \<and>
     item_similarity s = [[0, 1], [1, 0]] \<and>
     user_similarity s = [[0, 1], [1, 0]] \<and>
     item_prediction s = [[Some 0, Some 300000], [Some 250006, Some 0]] \<and>
     user_prediction s = [[Some 24997, Some 275003], [Some 275003, Some (- 24997)]]"
proof -
  have sim: "pairwise_distances_cosine [[300000, 0], [0, 250006]] = Inr [[0, 1], [1, 0]]"
    by (simp add: pairwise_distances_cosine_def nrows_def ncols_def cosine_distances_diag2)
  have nb: "notebook example_listens example_profiles =
      take 5 (notebook example_listens example_profiles) @ [cell_matrix, cell_similarity, cell_predict]"
    by (simp add: notebook_def)
  show ?thesis
    apply (subst nb)
    apply (simp add: run_cells_append run_take5 example_restricted cell_matrix_def example_pivot
        csr_matrix_def cell_similarity_def sim example_T cell_predict_def example_item_prediction
        example_user_prediction)
    done
qed

lemma example_run6:
  "\<exists>s. run_cells (take 6 (notebook example_listens example_profiles)) k = Inr s \<and>
     df s = [\<lparr>user = ''u1'', artist = ''a'', plays = 300000\<rparr>,
             \<lparr>user = ''u2'', artist = ''b'', plays = 250006\<rparr>] \<and>
     matrix s = \<lparr>index = [''a'', ''b''], columns = [''u1'', ''u2''], cells = [[300000, 0], [0, 250006]]\<rparr>"
  by (simp add: take6 run_cells_append run_take5 example_restricted cell_matrix_def example_pivot)

subsection \<open>Orientation and labels of the matrix\<close>

text \<open>
  C2, as amended. The pivot cell never fails, and it turns the filtered table into a dense
  artist-by-user matrix: one row per distinct artist, one column per distinct user, the
  cell of artist a and user u holding the play count of user u for artist a.
\<close>

theorem pivot_artist_by_user:
  "\<exists>s. run_cells (take 6 (notebook d p)) k = Inr s \<and> artist_by_user_matrix (df s) (matrix s)"
proof -
  obtain s where s: "run_cells (take 6 (notebook d p)) k = Inr s"
    using run_take6_ex by blast
  from run_from_matrix [OF _ s] have "artist_by_user_matrix (df s) (matrix s)"
    by (auto intro: pivot_matrix_dense)
  with s show ?thesis by blast
qed

theorem pivot_artist_by_user_witness:
  "\<exists>s. run_cells (take 6 (notebook example_listens example_profiles)) fresh_kernel = Inr s \<and>
     matrix s = \<lparr>index = [''a'', ''b''], columns = [''u1'', ''u2''], cells = [[300000, 0], [0, 250006]]\<rparr> \<and>
     artist_by_user_matrix (df s) (matrix s)"
proof -
  obtain s where s: "run_cells (take 6 (notebook example_listens example_profiles)) fresh_kernel = Inr s"
    and m: "matrix s = \<lparr>index = [''a'', ''b''], columns = [''u1'', ''u2''], cells = [[300000, 0], [0, 250006]]\<rparr>"
    using example_run6 [of fresh_kernel] by blast
  from pivot_artist_by_user [of example_listens example_profiles fresh_kernel] s
  have "artist_by_user_matrix (df s) (matrix s)"
    by simp
  with s m show ?thesis by blast
qed

text \<open>
  C2, as stated, fails: for the table of two rows that the example files leave after the
  restriction, the pivoted matrix has the artists a and b as its row labels and the users
  u1 and u2 as its column labels, so it is not a user-by-artist matrix.
\<close>

theorem pivot_user_by_artist_counterexample:
  "pivot_matrix [\<lparr>user = ''u1'', artist = ''a'', plays = 300000\<rparr>,
                 \<lparr>user = ''u2'', artist = ''b'', plays = 250006\<rparr>] =
     Inr \<lparr>index = [''a'', ''b''], columns = [''u1'', ''u2''], cells = [[300000, 0], [0, 250006]]\<rparr> \<and>
   \<not> user_by_artist_matrix
       [\<lparr>user = ''u1'', artist = ''a'', plays = 300000\<rparr>,
        \<lparr>user = ''u2'', artist = ''b'', plays = 250006\<rparr>]
       \<lparr>index = [''a'', ''b''], columns = [''u1'', ''u2''], cells = [[300000, 0], [0, 250006]]\<rparr>"
proof -
  let ?tab = "[\<lparr>user = ''u1'', artist = ''a'', plays = 300000\<rparr>,
               \<lparr>user = ''u2'', artist = ''b'', plays = 250006\<rparr>]"
  let ?m = "\<lparr>index = [''a'', ''b''], columns = [''u1'', ''u2''],
             cells = [[300000, 0], [0, 250006 :: real]]\<rparr>"
  have "\<not> user_by_artist_matrix ?tab ?m"
  proof
    assume "user_by_artist_matrix ?tab ?m"
    then have rows: "set (index ?m) = set (map user ?tab)"
      unfolding user_by_artist_matrix_def dense_matrix_def by (elim conjE)
    have "''a'' \<in> set (index ?m)"
      by simp
    then have "''a'' \<in> set (map user ?tab)"
      by (simp only: rows)
    then show False
      by simp
  qed
  with example_pivot show ?thesis
    by (simp only: simp_thms)
qed

text \<open>
  C7. From the pivot cell on, in every state of the run, the row labels of the matrix are
  pairwise distinct and are the artists of the working table, the column labels are
  pairwise distinct and are its users, and two positions with the same artist and the same
  user are the same position. The later cells do not assign the matrix.
\<close>

theorem matrix_labels_unique:
  assumes "6 \<le> n" and "run_cells (take n (notebook d p)) k = Inr s"
  shows "distinct (index (matrix s)) \<and> set (index (matrix s)) = artist ` set (df s) \<and>
         distinct (columns (matrix s)) \<and> set (columns (matrix s)) = user ` set (df s) \<and>
         (\<forall>i i' j j'. i < length (index (matrix s)) \<and> i' < length (index (matrix s)) \<and>
              j < length (columns (matrix s)) \<and> j' < length (columns (matrix s)) \<and>
              index (matrix s) ! i = index (matrix s) ! i' \<and>
              columns (matrix s) ! j = columns (matrix s) ! j' \<longrightarrow> i = i' \<and> j = j')"
proof -
  from run_from_matrix [OF assms] have "artist_by_user_matrix (df s) (matrix s)"
    by (auto intro: pivot_matrix_dense)
  then have d: "distinct (index (matrix s))" "distinct (columns (matrix s))"
    and e: "set (index (matrix s)) = artist ` set (df s)" "set (columns (matrix s)) = user ` set (df s)"
    by (simp_all add: artist_by_user_matrix_def dense_matrix_def)
  have "i = i' \<and> j = j'"
    if "i < length (index (matrix s)) \<and> i' < length (index (matrix s)) \<and>
        j < length (columns (matrix s)) \<and> j' < length (columns (matrix s)) \<and>
        index (matrix s) ! i = index (matrix s) ! i' \<and>
        columns (matrix s) ! j = columns (matrix s) ! j'" for i i' j j'
    using that d nth_eq_iff_index_eq [of "index (matrix s)" i i']
      nth_eq_iff_index_eq [of "columns (matrix s)" j j'] by blast
  then have "\<forall>i i' j j'. i < length (index (matrix s)) \<and> i' < length (index (matrix s)) \<and>
              j < length (columns (matrix s)) \<and> j' < length (columns (matrix s)) \<and>
              index (matrix s) ! i = index (matrix s) ! i' \<and>
              columns (matrix s) ! j = columns (matrix s) ! j' \<longrightarrow> i = i' \<and> j = j'"
    by blast
  with d e show ?thesis by blast
qed

theorem matrix_labels_unique_witness:
  "\<exists>s. run_cells (take 8 (notebook example_listens example_profiles)) fresh_kernel = Inr s \<and>
     index (matrix s) = [''a'', ''b''] \<and> columns (matrix s) = [''u1'', ''u2''] \<and>
     distinct (index (matrix s)) \<and> set (index (matrix s)) = artist ` set (df s) \<and>
     distinct (columns (matrix s)) \<and> set (columns (matrix s)) = user ` set (df s)"
proof -
  have all: "take 8 (notebook example_listens example_profiles) = notebook example_listens example_profiles"
    by (simp add: notebook_def)
  obtain s where s: "run_cells (take 8 (notebook example_listens example_profiles)) fresh_kernel = Inr s"
    and m: "matrix s = \<lparr>index = [''a'', ''b''], columns = [''u1'', ''u2''], cells = [[300000, 0], [0, 250006]]\<rparr>"
    unfolding all using example_run [of fresh_kernel] by blast
  have n: "(6::nat) \<le> 8"
    by simp
  from matrix_labels_unique [OF n s]
  have "distinct (index (matrix s)) \<and> set (index (matrix s)) = artist ` set (df s) \<and>
     distinct (columns (matrix s)) \<and> set (columns (matrix s)) = user ` set (df s)"
    by blast
  with s m show ?thesis by simp
qed

subsection \<open>The whole run\<close>

lemma notebook_split:
  "notebook d p = take 5 (notebook d p) @ [cell_matrix, cell_similarity, cell_predict]"
  by (simp add: notebook_def)

lemma cell_similarity_result:
  "cell_similarity k = Inr k' \<Longrightarrow>
     pairwise_distances_cosine (matrix_sparse k) = Inr (item_similarity k') \<and>
     pairwise_distances_cosine (mat_T (matrix_sparse k)) = Inr (user_similarity k')"
  by (auto simp: cell_similarity_def split: sum.splits)

lemma cell_predict_result:
  "cell_predict k = Inr k' \<Longrightarrow>
     predict (mat_T (matrix_sparse k)) (item_similarity k) ''item'' = Inr (item_prediction k') \<and>
     predict (mat_T (matrix_sparse k)) (user_similarity k) ''user'' = Inr (user_prediction k')"
  by (auto simp: cell_predict_def split: sum.splits)

lemma run_notebook_result:
  assumes "run_cells (notebook d p) k = Inr s"
  shows "pivot_matrix (df s) = Inr (matrix s) \<and> matrix_sparse s = cells (matrix s) \<and>
     pairwise_distances_cosine (matrix_sparse s) = Inr (item_similarity s) \<and>
     pairwise_distances_cosine (mat_T (matrix_sparse s)) = Inr (user_similarity s) \<and>
     predict (mat_T (matrix_sparse s)) (item_similarity s) ''item'' = Inr (item_prediction s) \<and>
     predict (mat_T (matrix_sparse s)) (user_similarity s) ''user'' = Inr (user_prediction s)"
proof -
  obtain s5 where s5: "run_cells (take 5 (notebook d p)) k = Inr s5"
    by (simp add: run_take5)
  have "run_cells (notebook d p) k =
      (case cell_matrix s5 of Inl e \<Rightarrow> Inl e
       | Inr s6 \<Rightarrow> (case cell_similarity s6 of Inl e \<Rightarrow> Inl e | Inr s7 \<Rightarrow> cell_predict s7))"
  proof (cases "cell_matrix s5")
    case (Inl e)
    then show ?thesis
      by (subst notebook_split) (simp add: run_cells_append s5)
  next
    case (Inr s6)
    then show ?thesis
      by (subst notebook_split, cases "cell_similarity s6")
        (simp_all add: run_cells_append s5 split: sum.splits)
  qed
  with assms obtain s6 where s6: "cell_matrix s5 = Inr s6"
    and "(case cell_similarity s6 of Inl e \<Rightarrow> Inl e | Inr s7 \<Rightarrow> cell_predict s7) = Inr s"
    by (cases "cell_matrix s5") simp_all
  then obtain s7 where s7: "cell_similarity s6 = Inr s7" and s8: "cell_predict s7 = Inr s"
    by (cases "cell_similarity s6") simp_all
  show ?thesis
    using cell_matrix_Inr [OF s6] cell_similarity_Inr [OF s7] cell_similarity_result [OF s7]
      cell_predict_Inr [OF s8] cell_predict_result [OF s8]
    by simp
qed

subsection \<open>Prediction and similarity\<close>

lemma sum_list_abs_nth:
  "sum_list (map abs (xs :: real list)) = (\<Sum>j<length xs. \<bar>xs ! j\<bar>)"
proof -
  have "sum_list (map abs xs) = (\<Sum>j = 0..<length (map abs xs). map abs xs ! j)"
    by (rule sum_list_sum_nth)
  also have "\<dots> = (\<Sum>j<length xs. \<bar>xs ! j\<bar>)"
    by (simp add: atLeast0LessThan)
  finally show ?thesis .
qed

lemma ncols_square:
  assumes "\<forall>r\<in>set X. length r = n" and "X \<noteq> []"
  shows "ncols X = n"
  using assms by (cases X) (simp_all add: ncols_def)

lemma predict_item_entry:
  assumes sq: "\<forall>r\<in>set S. length r = length S"
    and rect: "\<forall>r\<in>set M. length r = length S"
    and u: "u < length M" and i: "i < length S"
  shows "\<exists>pred. predict M S ''item'' = Inr pred \<and>
           pred ! u ! i = np_divide (\<Sum>j<length S. M ! u ! j * S ! j ! i) (\<Sum>j<length S. \<bar>S ! i ! j\<bar>)"
proof -
  from u have M: "M \<noteq> []" by auto
  from i have S: "S \<noteq> []" by auto
  have cM: "ncols M = length S"
    using rect M by (rule ncols_square)
  have cS: "ncols S = length S"
    using sq S by (rule ncols_square)
  define num where "num = map (\<lambda>r. map (\<lambda>j. \<Sum>k<length S. r ! k * S ! k ! j) [0..<length S]) M"
  have dot: "dot M S = Inr num"
    by (simp add: dot_def cM cS nrows_def num_def)
  have rnum: "nrows num = length M"
    by (simp add: nrows_def num_def)
  have cnum: "ncols num = length S"
    using M by (cases M) (simp_all add: ncols_def num_def)
  define den where "den = [abs_sum_axis1 S]"
  have rden: "nrows den = 1"
    by (simp add: nrows_def den_def)
  have cden: "ncols den = length S"
    by (simp add: ncols_def den_def abs_sum_axis1_def)
  have shape_r: "bshape (length M) (Suc 0) = Some (length M)"
    by (simp add: bshape_def)
  have shape_c: "bshape (length S) (length S) = Some (length S)"
    by (simp add: bshape_def)
  define pred where
    "pred = map (\<lambda>i. map (\<lambda>j. np_divide (bget num i j) (bget den i j)) [0..<length S]) [0..<length M]"
  have bc: "broadcast2 np_divide num den = Inr pred"
    by (simp add: broadcast2_def rnum cnum rden cden shape_r shape_c pred_def)
  have p: "predict M S ''item'' = Inr pred"
    by (simp add: predict_def dot bc [unfolded den_def])
  have "bget num u i = num ! u ! i"
    using u i by (auto simp: bget_def rnum cnum)
  also have "\<dots> = (\<Sum>j<length S. M ! u ! j * S ! j ! i)"
    using u i by (simp add: num_def)
  finally have gnum: "bget num u i = (\<Sum>j<length S. M ! u ! j * S ! j ! i)" .
  have len: "length (S ! i) = length S"
    using sq i by simp
  have "bget den u i = den ! 0 ! i"
    using i by (auto simp: bget_def rden cden)
  also have "\<dots> = (\<Sum>j<length S. \<bar>S ! i ! j\<bar>)"
    using i len by (simp add: den_def abs_sum_axis1_def sum_list_abs_nth)
  finally have gden: "bget den u i = (\<Sum>j<length S. \<bar>S ! i ! j\<bar>)" .
  have "pred ! u ! i = np_divide (bget num u i) (bget den u i)"
    using u i by (simp add: pred_def)
  with p gnum gden show ?thesis
    by simp
qed

lemma cosine_distances_shape:
  "length (cosine_distances X) = length X \<and> (\<forall>r\<in>set (cosine_distances X). length r = length X)"
  by (auto simp: cosine_distances_def sk_cosine_similarity_def normalize_rows_def Let_def)

lemma mat_T_shape:
  "length (mat_T X) = ncols X \<and> (\<forall>r\<in>set (mat_T X). length r = length X)"
  by (auto simp: mat_T_def)

lemma pairwise_distances_cosine_Inr:
  "pairwise_distances_cosine X = Inr S \<Longrightarrow> S = cosine_distances X \<and> X \<noteq> [] \<and> ncols X \<noteq> 0"
  by (auto simp: pairwise_distances_cosine_def nrows_def split: if_splits)

lemma cosine_distances_diag3:
  assumes "x \<noteq> 0" and "y \<noteq> 0" and "z \<noteq> 0"
  shows "cosine_distances [[x, 0, 0], [0, y, 0], [0, 0, z]] = [[0, 1, 1], [1, 0, 1], [1, 1, 0]]"
  using assms
  by (simp add: cosine_distances_def sk_cosine_similarity_def normalize_rows_def norm2_def
      dot_product_def clip_def Let_def numeral_3_eq_3)

lemma three_restricted:
  "isin_artist (groupby_user_artist_sum (merge_inner three_listens (select_female (select_UK three_profiles))))
     (image_mset ta_artist (select_top (groupby_artist_sum three_listens))) =
   [\<lparr>user = ''u1'', artist = ''a'', plays = 300000\<rparr>,
    \<lparr>user = ''u2'', artist = ''b'', plays = 240000\<rparr>,
    \<lparr>user = ''u3'', artist = ''c'', plays = 420000\<rparr>]"
  unfolding isin_top_artist by code_simp

lemma three_pivot_raw:
  "pivot [\<lparr>user = ''u1'', artist = ''a'', plays = 300000\<rparr>,
          \<lparr>user = ''u2'', artist = ''b'', plays = 240000\<rparr>,
          \<lparr>user = ''u3'', artist = ''c'', plays = 420000\<rparr>] =
   Inr \<lparr>index = [''a'', ''b'', ''c''], columns = [''u1'', ''u2'', ''u3''],
        cells = [[Some 300000, None, None], [None, Some 240000, None], [None, None, Some 420000]]\<rparr>"
  by code_simp

lemma three_pivot:
  "pivot_matrix [\<lparr>user = ''u1'', artist = ''a'', plays = 300000\<rparr>,
                 \<lparr>user = ''u2'', artist = ''b'', plays = 240000\<rparr>,
                 \<lparr>user = ''u3'', artist = ''c'', plays = 420000\<rparr>] =
   Inr \<lparr>index = [''a'', ''b'', ''c''], columns = [''u1'', ''u2'', ''u3''],
        cells = [[300000, 0, 0], [0, 240000, 0], [0, 0, 420000]]\<rparr>"
  by (simp add: pivot_matrix_def three_pivot_raw fillna0_def)

lemma three_T:
  "mat_T [[300000, 0, 0], [0, 240000, 0], [0, 0, 420000 :: real]] =
     [[300000, 0, 0], [0, 240000, 0], [0, 0, 420000]]"
  by code_simp

lemma three_item_prediction:
  "predict [[300000, 0, 0], [0, 240000, 0], [0, 0, 420000]] [[0, 1, 1], [1, 0, 1], [1, 1, 0]] ''item'' =
     Inr [[Some 0, Some 150000, Some 150000], [Some 120000, Some 0, Some 120000],
          [Some 210000, Some 210000, Some 0]]"
  by code_simp

lemma three_user_prediction:
  "predict [[300000, 0, 0], [0, 240000, 0], [0, 0, 420000]] [[0, 1, 1], [1, 0, 1], [1, 1, 0]] ''user'' =
     Inr [[Some (- 10000), Some 110000, Some 200000], [Some 110000, Some (- 40000), Some 170000],
          [Some 200000, Some 170000, Some 50000]]"
  by code_simp

lemma three_run:
  "\<exists>s. run_cells (notebook three_listens three_profiles) k = Inr s \<and>
     matrix s = \<lparr>index = [''a'', ''b'', ''c''], columns = [''u1'', ''u2'', ''u3''],
                  cells = [[300000, 0, 0], [0, 240000, 0], [0, 0, 420000]]\<rparr> \<and>
     matrix_sparse s = [[300000, 0, 0], [0, 240000, 0], [0, 0, 420000]] \<and>
     item_similarity s = [[0, 1, 1], [1, 0, 1], [1, 1, 0]] \<and>
     item_prediction s = [[Some 0, Some 150000, Some 150000], [Some 120000, Some 0, Some 120000],
                          [Some 210000, Some 210000, Some 0]]"
proof -
  have sim: "pairwise_distances_cosine [[300000, 0, 0], [0, 240000, 0], [0, 0, 420000]] =
      Inr [[0, 1, 1], [1, 0, 1], [1, 1, 0]]"
    by (simp add: pairwise_distances_cosine_def nrows_def ncols_def cosine_distances_diag3)
  show ?thesis
    apply (subst notebook_split)
    apply (simp add: run_cells_append run_take5 three_restricted cell_matrix_def three_pivot
        csr_matrix_def cell_similarity_def sim three_T cell_predict_def three_item_prediction
        three_user_prediction)
    done
qed

text \<open>
  C3. After a run, for every user u (a column of the pivoted matrix) and every artist i (a
  row of it), the item-based prediction at (u, i) is the sum over the artists j of
  matrix[u, j] times item_similarity[j, i], divided by the sum over j of the absolute
  values of item_similarity[i, j]. Here matrix is the argument passed to predict, the
  transposed play-count matrix, whose entry (u, j) is the pivoted matrix's entry (j, u).
  When the divisor is zero the floating-point division gives no finite number.
\<close>

theorem item_prediction_weighted_average:
  assumes "run_cells (notebook d p) k = Inr s"
    and "u < length (columns (matrix s))" and "i < length (index (matrix s))"
  shows "((\<Sum>j<length (index (matrix s)). \<bar>item_similarity s ! i ! j\<bar>) \<noteq> 0 \<longrightarrow>
            item_prediction s ! u ! i =
              Some ((\<Sum>j<length (index (matrix s)). mat_T (matrix_sparse s) ! u ! j * item_similarity s ! j ! i) /
                    (\<Sum>j<length (index (matrix s)). \<bar>item_similarity s ! i ! j\<bar>))) \<and>
         ((\<Sum>j<length (index (matrix s)). \<bar>item_similarity s ! i ! j\<bar>) = 0 \<longrightarrow>
            item_prediction s ! u ! i = None) \<and>
         (\<forall>j<length (index (matrix s)). mat_T (matrix_sparse s) ! u ! j = cells (matrix s) ! j ! u)"
proof -
  let ?X = "matrix_sparse s"
  let ?S = "item_similarity s"
  note res = run_notebook_result [OF assms(1)]
  from res have X: "?X = cells (matrix s)"
    by simp
  from res have "artist_by_user_matrix (df s) (matrix s)"
    by (auto intro: pivot_matrix_dense)
  then have rows: "length ?X = length (index (matrix s))"
    and cols: "\<forall>i<length (index (matrix s)). length (?X ! i) = length (columns (matrix s))"
    by (simp_all add: artist_by_user_matrix_def dense_matrix_def X)
  from res have pw: "pairwise_distances_cosine ?X = Inr ?S"
    by blast
  from pairwise_distances_cosine_Inr [OF pw] have S: "?S = cosine_distances ?X" and ne: "?X \<noteq> []"
    by blast+
  from ne rows have "0 < length (index (matrix s))"
    by (cases ?X) auto
  with cols have "length (?X ! 0) = length (columns (matrix s))"
    by blast
  with ne have "length (hd ?X) = length (columns (matrix s))"
    by (simp add: hd_conv_nth)
  with ne have nc: "ncols ?X = length (columns (matrix s))"
    by (cases ?X) (simp_all add: ncols_def)
  have lenS: "length ?S = length (index (matrix s))"
    by (simp add: S cosine_distances_shape rows)
  have sq: "\<forall>r\<in>set ?S. length r = length ?S"
    using cosine_distances_shape [of ?X] by (simp add: S)
  have rect: "\<forall>r\<in>set (mat_T ?X). length r = length ?S"
    using mat_T_shape [of ?X] by (simp add: lenS rows)
  have u: "u < length (mat_T ?X)"
    using assms(2) mat_T_shape [of ?X] by (simp add: nc)
  have i: "i < length ?S"
    using assms(3) by (simp add: lenS)
  from predict_item_entry [OF sq rect u i] res
  have entry: "item_prediction s ! u ! i =
      np_divide (\<Sum>j<length ?S. mat_T ?X ! u ! j * ?S ! j ! i) (\<Sum>j<length ?S. \<bar>?S ! i ! j\<bar>)"
    by auto
  have "mat_T ?X ! u ! j = cells (matrix s) ! j ! u" if "j < length (index (matrix s))" for j
    using that assms(2) by (simp add: mat_T_def nc rows X [symmetric])
  with entry show ?thesis
    by (simp add: lenS np_divide_def)
qed

theorem item_prediction_weighted_average_witness:
  "\<exists>s. run_cells (notebook three_listens three_profiles) fresh_kernel = Inr s \<and>
     0 < length (columns (matrix s)) \<and> 1 < length (index (matrix s)) \<and>
     (\<Sum>j<length (index (matrix s)). mat_T (matrix_sparse s) ! 0 ! j * item_similarity s ! j ! 1) = 300000 \<and>
     (\<Sum>j<length (index (matrix s)). \<bar>item_similarity s ! 1 ! j\<bar>) = 2 \<and>
     item_prediction s ! 0 ! 1 = Some (300000 / 2)"
proof -
  obtain s where r: "run_cells (notebook three_listens three_profiles) fresh_kernel = Inr s"
    and m: "matrix s = \<lparr>index = [''a'', ''b'', ''c''], columns = [''u1'', ''u2'', ''u3''],
                  cells = [[300000, 0, 0], [0, 240000, 0], [0, 0, 420000]]\<rparr>"
    and x: "matrix_sparse s = [[300000, 0, 0], [0, 240000, 0], [0, 0, 420000]]"
    and y: "item_similarity s = [[0, 1, 1], [1, 0, 1], [1, 1, 0]]"
    using three_run [of fresh_kernel] by blast
  have u: "0 < length (columns (matrix s))" and i: "1 < length (index (matrix s))"
    by (simp_all add: m)
  have num: "(\<Sum>j<length (index (matrix s)). mat_T (matrix_sparse s) ! 0 ! j * item_similarity s ! j ! 1) = 300000"
    by (simp add: m x y three_T numeral_3_eq_3)
  have den: "(\<Sum>j<length (index (matrix s)). \<bar>item_similarity s ! 1 ! j\<bar>) = 2"
    by (simp add: m y numeral_3_eq_3)
  then have nz: "(\<Sum>j<length (index (matrix s)). \<bar>item_similarity s ! 1 ! j\<bar>) \<noteq> 0"
    by simp
  from item_prediction_weighted_average [OF r u i] nz
  have "item_prediction s ! 0 ! 1 =
      Some ((\<Sum>j<length (index (matrix s)). mat_T (matrix_sparse s) ! 0 ! j * item_similarity s ! j ! 1) /
            (\<Sum>j<length (index (matrix s)). \<bar>item_similarity s ! 1 ! j\<bar>))"
    by blast
  then have "item_prediction s ! 0 ! 1 = Some (300000 / 2)"
    by (simp only: num den)
  with r u i num den show ?thesis
    by blast
qed


lemma cosine_similarity_same_axis:
  "x \<noteq> 0 \<Longrightarrow> cosine_similarity [x, 0] [x, 0] = 1"
  by (simp add: cosine_similarity_def dot_product_def norm2_def)

lemma cosine_similarity_other_axis:
  "cosine_similarity [x, 0] [0, y] = 0"
  by (simp add: cosine_similarity_def dot_product_def norm2_def)

text \<open>
  C1, evaluated at the example files. The pivoted matrix has the rows (300000, 0) for
  artist a and (0, 250006) for artist b. The notebook's item_similarity and
  user_similarity have 0 on the diagonal and 1 off it: they hold cosine distances, one
  minus the similarity. The cosine similarity of the row of a with itself is 1, and of
  the rows of a and b it is 0.
\<close>

theorem similarity_is_cosine_distance:
  "\<exists>s. run_cells (notebook example_listens example_profiles) fresh_kernel = Inr s \<and>
     matrix_sparse s = [[300000, 0], [0, 250006]] \<and>
     item_similarity s = [[0, 1], [1, 0]] \<and>
     user_similarity s = [[0, 1], [1, 0]] \<and>
     cosine_similarity [300000, 0] [300000, 0] = 1 \<and>
     cosine_similarity [300000, 0] [0, 250006] = 0"
proof -
  have "cosine_similarity [300000, 0] [300000, 0] = 1"
    by (rule cosine_similarity_same_axis) simp
  moreover have "cosine_similarity [300000, 0] [0, 250006] = 0"
    by (rule cosine_similarity_other_axis)
  ultimately show ?thesis
    using example_run [of fresh_kernel] by blast
qed

end
